theory Spec2Isabelle
  imports Complex_Main "HOL-Library.Product_Lexorder"
begin

section \<open>Python values shared by all components\<close>

text \<open>
  An exception is recorded by the name of its class and its message. The classes the
  modelled code raises are the built-in \<open>ValueError\<close>, \<open>KeyError\<close> and \<open>IndexError\<close>; the
  repository declares no exception class of its own.

  Numbers: Python floats are modelled by exact reals, so binary rounding, infinities and
  NaN are outside the model.
\<close>

datatype py_error = Raised string string

fun exc_class :: "py_error \<Rightarrow> string" where
  "exc_class (Raised cls msg) = cls"

definition ValueError :: "string \<Rightarrow> py_error" where
  "ValueError msg = Raised ''ValueError'' msg"

definition KeyError :: "string \<Rightarrow> py_error" where
  "KeyError k = Raised ''KeyError'' k"

definition IndexError :: "string \<Rightarrow> py_error" where
  "IndexError msg = Raised ''IndexError'' msg"

fun raised_class :: "py_error + 'a \<Rightarrow> string option" where
  "raised_class (Inl e) = Some (exc_class e)"
| "raised_class (Inr v) = None"

text \<open>\<open>d.get(k, default)\<close> on a dictionary kept as an association list.\<close>

definition dict_get :: "('k \<times> 'v) list \<Rightarrow> 'k \<Rightarrow> 'v \<Rightarrow> 'v" where
  "dict_get d k dflt = (case map_of d k of None \<Rightarrow> dflt | Some v \<Rightarrow> v)"

text \<open>\<open>d[k]\<close>: a missing key raises \<open>KeyError\<close>.\<close>

definition dict_item :: "(string \<times> 'v) list \<Rightarrow> string \<Rightarrow> py_error + 'v" where
  "dict_item d k = (case map_of d k of None \<Rightarrow> Inl (KeyError k) | Some v \<Rightarrow> Inr v)"

text \<open>\<open>d[k] = v\<close>: the value of an existing key is replaced in place, a new key comes last.\<close>

fun dict_set :: "('k \<times> 'v) list \<Rightarrow> 'k \<Rightarrow> 'v \<Rightarrow> ('k \<times> 'v) list" where
  "dict_set [] k v = [(k, v)]"
| "dict_set ((k', old) # d) k v =
     (if k' = k then (k', v) # d else (k', old) # dict_set d k v)"

text \<open>The built-in \<open>sum\<close>: a left fold of \<open>+\<close> from \<open>0\<close>.\<close>

definition py_sum :: "('a::monoid_add) list \<Rightarrow> 'a" where
  "py_sum xs = foldl (+) 0 xs"


section \<open>Emission calculator (\<open>carbon_calculator.py\<close>)\<close>

text \<open>The four tables of \<open>self.emission_factors\<close>, in kg CO2 per unit.\<close>

definition transportation_factors :: "(string \<times> real) list" where
  "transportation_factors =
     [(''car_gasoline'', 0.411), (''car_diesel'', 0.364), (''car_electric'', 0.1),
      (''bus'', 0.089), (''train'', 0.041), (''plane_domestic'', 0.255),
      (''plane_international'', 0.195), (''motorcycle'', 0.197), (''bicycle'', 0.0),
      (''walking'', 0.0)]"

definition energy_factors :: "(string \<times> real) list" where
  "energy_factors =
     [(''electricity'', 0.92), (''natural_gas'', 5.3), (''heating_oil'', 10.15),
      (''propane'', 5.68), (''coal'', 2.23)]"

definition food_factors :: "(string \<times> real) list" where
  "food_factors =
     [(''beef'', 27.0), (''lamb'', 39.2), (''pork'', 12.1), (''chicken'', 6.9),
      (''fish'', 6.1), (''dairy'', 3.2), (''eggs'', 4.8), (''vegetables'', 2.0),
      (''fruits'', 1.1), (''grains'', 2.5), (''processed_food'', 5.8)]"

definition waste_factors :: "(string \<times> real) list" where
  "waste_factors =
     [(''landfill'', 0.57), (''recycling'', 0.0), (''composting'', 0.0),
      (''incineration'', 0.7)]"

text \<open>
  Each calculator walks the items of its dictionary in order and adds the emission of
  every activity whose key is in the factor table; other keys are skipped. A transport
  entry is itself a dictionary read with \<open>get('distance', 0)\<close> and \<open>get('frequency', 1)\<close>.
\<close>

definition calculate_transportation_footprint ::
    "(string \<times> (string \<times> real) list) list \<Rightarrow> real" where
  "calculate_transportation_footprint transport_data =
     foldl (\<lambda>total_emissions (mode, details).
              case map_of transportation_factors mode of
                None \<Rightarrow> total_emissions
              | Some factor \<Rightarrow>
                  total_emissions +
                    dict_get details ''distance'' 0 * dict_get details ''frequency'' 1 * factor)
           0 transport_data"

definition weighted_total :: "(string \<times> real) list \<Rightarrow> (string \<times> real) list \<Rightarrow> real" where
  "weighted_total factors data =
     foldl (\<lambda>total_emissions (key, amount).
              case map_of factors key of
                None \<Rightarrow> total_emissions
              | Some factor \<Rightarrow> total_emissions + amount * factor)
           0 data"

definition calculate_energy_footprint :: "(string \<times> real) list \<Rightarrow> real" where
  "calculate_energy_footprint energy_data = weighted_total energy_factors energy_data"

definition calculate_food_footprint :: "(string \<times> real) list \<Rightarrow> real" where
  "calculate_food_footprint food_data = weighted_total food_factors food_data"

definition calculate_waste_footprint :: "(string \<times> real) list \<Rightarrow> real" where
  "calculate_waste_footprint waste_data = weighted_total waste_factors waste_data"

text \<open>
  The argument \<open>user_data\<close>: the four keys \<open>calculate_total_footprint\<close> looks at; a key
  that is absent is \<open>None\<close>. Any other key of the dictionary is never read.
\<close>

record activity_input =
  transportation :: "(string \<times> (string \<times> real) list) list option"
  energy :: "(string \<times> real) list option"
  food :: "(string \<times> real) list option"
  waste :: "(string \<times> real) list option"

text \<open>
  The returned dictionary in insertion order: one entry per category present in the
  input, then \<open>total\<close>, the sum of the values entered so far.
\<close>

definition put_if_present ::
    "string \<Rightarrow> ('d \<Rightarrow> real) \<Rightarrow> 'd option \<Rightarrow> (string \<times> real) list \<Rightarrow> (string \<times> real) list" where
  "put_if_present key calc entry breakdown =
     (case entry of None \<Rightarrow> breakdown | Some d \<Rightarrow> breakdown @ [(key, calc d)])"

definition calculate_total_footprint :: "activity_input \<Rightarrow> (string \<times> real) list" where
  "calculate_total_footprint ud =
     (let b0 = [];
          b1 = put_if_present ''transportation'' calculate_transportation_footprint
                 (transportation ud) b0;
          b2 = put_if_present ''energy'' calculate_energy_footprint (energy ud) b1;
          b3 = put_if_present ''food'' calculate_food_footprint (food ud) b2;
          b4 = put_if_present ''waste'' calculate_waste_footprint (waste ud) b3
      in b4 @ [(''total'', py_sum (map snd b4))])"

text \<open>The value a category contributes to the total: zero when the category is absent.\<close>

definition contribution :: "('d \<Rightarrow> real) \<Rightarrow> 'd option \<Rightarrow> real" where
  "contribution calc entry = (case entry of None \<Rightarrow> 0 | Some d \<Rightarrow> calc d)"


section \<open>Strings\<close>

text \<open>
  Python strings are modelled as lists of 8-bit characters, and \<open>lower\<close>, \<open>title\<close> and
  \<open>in\<close> as they act on ASCII text: only the letters \<open>A\<close> to \<open>Z\<close> and \<open>a\<close> to \<open>z\<close> are cased.
  All texts and keywords of the recommendation engine are ASCII.
\<close>

definition upper_letters :: string where
  "upper_letters = ''ABCDEFGHIJKLMNOPQRSTUVWXYZ''"

definition lower_letters :: string where
  "lower_letters = ''abcdefghijklmnopqrstuvwxyz''"

definition lower_char :: "char \<Rightarrow> char" where
  "lower_char c = (case map_of (zip upper_letters lower_letters) c of None \<Rightarrow> c | Some d \<Rightarrow> d)"

definition upper_char :: "char \<Rightarrow> char" where
  "upper_char c = (case map_of (zip lower_letters upper_letters) c of None \<Rightarrow> c | Some d \<Rightarrow> d)"

definition is_cased :: "char \<Rightarrow> bool" where
  "is_cased c = (c \<in> set upper_letters \<or> c \<in> set lower_letters)"

text \<open>\<open>s.lower()\<close>.\<close>

definition lower :: "string \<Rightarrow> string" where
  "lower s = map lower_char s"

text \<open>
  \<open>s.title()\<close>: a letter is put in upper case when the character before it is not a
  letter (or there is none), and in lower case otherwise.
\<close>

fun title_from :: "bool \<Rightarrow> string \<Rightarrow> string" where
  "title_from previous_is_cased [] = []"
| "title_from previous_is_cased (c # cs) =
     (if previous_is_cased then lower_char c else upper_char c) # title_from (is_cased c) cs"

definition title :: "string \<Rightarrow> string" where
  "title s = title_from False s"

text \<open>\<open>k in s\<close> for strings: \<open>k\<close> occurs in \<open>s\<close> as a contiguous substring.\<close>

fun starts_with :: "string \<Rightarrow> string \<Rightarrow> bool" where
  "starts_with s [] = True"
| "starts_with [] (k # ks) = False"
| "starts_with (c # cs) (k # ks) = (c = k \<and> starts_with cs ks)"

fun contains :: "string \<Rightarrow> string \<Rightarrow> bool" where
  "contains [] k = (k = [])"
| "contains (c # cs) k = (starts_with (c # cs) k \<or> contains cs k)"


section \<open>Recommendation engine (\<open>ai_recommendations.py\<close>)\<close>

text \<open>Sequencing of fallible steps: the first exception ends the computation.\<close>

definition and_then :: "py_error + 'a \<Rightarrow> ('a \<Rightarrow> py_error + 'b) \<Rightarrow> py_error + 'b" where
  "and_then r f = (case r of Inl e \<Rightarrow> Inl e | Inr v \<Rightarrow> f v)"

text \<open>\<open>_load_recommendation_database\<close>.\<close>

definition recommendation_database :: "(string \<times> (string \<times> string list) list) list" where
  "recommendation_database =
   [(''transportation'',
      [(''high_emissions'',
         [''Switch to an electric or hybrid vehicle - can reduce emissions by 40-60%'',
          ''Use public transportation for daily commutes'',
          ''Implement carpooling or ride-sharing for regular trips'',
          ''Work from home 2-3 days per week if possible'',
          ''Combine multiple errands into single trips'',
          ''Consider cycling or walking for short distances (<3 miles)'',
          ''Plan vacations closer to home to reduce flight emissions'',
          ''Use video conferencing instead of business travel'']),
       (''medium_emissions'',
         [''Maintain your vehicle properly for better fuel efficiency'',
          ''Plan routes efficiently to minimize driving time'',
          ''Use eco-driving techniques (smooth acceleration, steady speeds)'',
          ''Consider upgrading to a more fuel-efficient vehicle'',
          ''Use public transport for longer trips'']),
       (''low_emissions'',
         [''Great job! Your transportation emissions are low'',
          ''Continue using sustainable transport options'',
          ''Share your transportation habits with friends and family''])]),
    (''energy'',
      [(''high_emissions'',
         [''Switch to renewable energy sources (solar, wind)'',
          ''Improve home insulation to reduce heating/cooling needs'',
          ''Upgrade to energy-efficient appliances (ENERGY STAR rated)'',
          ''Install a programmable thermostat'',
          ''Replace incandescent bulbs with LED lighting'',
          ''Unplug electronics when not in use'',
          ''Use cold water for washing clothes when possible'',
          ''Consider a heat pump for heating and cooling'']),
       (''medium_emissions'',
         [''Set thermostat 2-3 degrees lower in winter, higher in summer'',
          ''Use natural light during the day'',
          ''Air-dry clothes instead of using the dryer'',
          ''Seal air leaks around windows and doors'']),
       (''low_emissions'',
         [''Excellent energy management!'',
          ''Continue your energy-efficient practices'',
          ''Consider sharing tips with neighbors''])]),
    (''food'',
      [(''high_emissions'',
         [''Reduce red meat consumption (beef, lamb) by 50%'',
          ''Try 'Meatless Monday' or plant-based meals 2-3 times per week'',
          ''Buy local and seasonal produce when possible'',
          ''Reduce food waste through meal planning'',
          ''Grow your own herbs and vegetables'',
          ''Choose organic and sustainably produced foods'',
          ''Reduce dairy consumption or try plant-based alternatives'',
          ''Avoid heavily processed and packaged foods'']),
       (''medium_emissions'',
         [''Plan meals in advance to reduce waste'',
          ''Choose chicken or fish over red meat'',
          ''Buy from local farmers markets'',
          ''Compost food scraps'']),
       (''low_emissions'',
         [''Your food choices are climate-friendly!'',
          ''Keep up the sustainable eating habits'',
          ''Consider sharing recipes with others''])]),
    (''waste'',
      [(''high_emissions'',
         [''Increase recycling rate to 80% or higher'',
          ''Start composting organic waste'',
          ''Reduce single-use items (bags, bottles, containers)'',
          ''Buy products with minimal packaging'',
          ''Donate or sell items instead of throwing them away'',
          ''Choose reusable alternatives (water bottles, shopping bags)'',
          ''Repair items instead of replacing them'',
          ''Buy second-hand when possible'']),
       (''medium_emissions'',
         [''Improve sorting for better recycling'',
          ''Reduce packaging waste by buying in bulk'',
          ''Use both sides of paper'',
          ''Choose products made from recycled materials'']),
       (''low_emissions'',
         [''Excellent waste management!'',
          ''Your waste practices are very sustainable'',
          ''Help others learn about proper waste disposal''])])]"

text \<open>\<open>_load_impact_estimates\<close>, in kg CO2 per year.\<close>

definition impact_estimates :: "(string \<times> (string \<times> int) list) list" where
  "impact_estimates =
   [(''transportation'',
      [(''switch_to_electric'', -2000), (''work_from_home_2days'', -800),
       (''use_public_transport'', -1200), (''carpool_regularly'', -600),
       (''eco_driving'', -300), (''bike_short_trips'', -400)]),
    (''energy'',
      [(''renewable_energy'', -1500), (''led_lighting'', -200),
       (''efficient_appliances'', -500), (''better_insulation'', -800),
       (''programmable_thermostat'', -300), (''unplug_devices'', -150)]),
    (''food'',
      [(''reduce_meat_50percent'', -500), (''local_food'', -200),
       (''reduce_food_waste'', -300), (''plant_based_2days'', -400),
       (''organic_food'', -100)]),
    (''waste'',
      [(''increase_recycling'', -200), (''composting'', -150),
       (''reduce_single_use'', -100), (''buy_second_hand'', -80),
       (''repair_vs_replace'', -120)])]"

text \<open>The keyword table of \<open>_extract_action_key\<close>, keywords in the order they are tried.\<close>

definition action_mapping :: "(string \<times> (string \<times> string) list) list" where
  "action_mapping =
   [(''transportation'',
      [(''electric'', ''switch_to_electric''), (''work from home'', ''work_from_home_2days''),
       (''public'', ''use_public_transport''), (''carpool'', ''carpool_regularly''),
       (''eco-driving'', ''eco_driving''), (''cycling'', ''bike_short_trips'')]),
    (''energy'',
      [(''renewable'', ''renewable_energy''), (''LED'', ''led_lighting''),
       (''appliances'', ''efficient_appliances''), (''insulation'', ''better_insulation''),
       (''thermostat'', ''programmable_thermostat''), (''unplug'', ''unplug_devices'')]),
    (''food'',
      [(''meat'', ''reduce_meat_50percent''), (''local'', ''local_food''),
       (''waste'', ''reduce_food_waste''), (''plant-based'', ''plant_based_2days''),
       (''organic'', ''organic_food'')]),
    (''waste'',
      [(''recycling'', ''increase_recycling''), (''composting'', ''composting''),
       (''single-use'', ''reduce_single_use''), (''second-hand'', ''buy_second_hand''),
       (''repair'', ''repair_vs_replace'')])]"

text \<open>
  \<open>_extract_action_key\<close>: the text is put in lower case, the keywords of the category are
  tried in order as they are written in the table, and the action of the first keyword
  that occurs in the lowered text is returned; with no keyword found, the first action of
  the table. An unknown category raises \<open>KeyError\<close>.
\<close>

definition extract_action_key :: "string \<Rightarrow> string \<Rightarrow> py_error + string" where
  "extract_action_key recommendation_text cat =
     and_then (dict_item action_mapping cat) (\<lambda>table.
       let rec_lower = lower recommendation_text in
       case find (\<lambda>(keyword, action). contains rec_lower keyword) table of
         Some (keyword, action) \<Rightarrow> Inr action
       | None \<Rightarrow>
           (case map snd table of
              [] \<Rightarrow> Inl (IndexError ''list index out of range'')
            | action # others \<Rightarrow> Inr action))"

text \<open>\<open>int(x)\<close> on a float: truncation towards zero.\<close>

definition py_int :: "real \<Rightarrow> int" where
  "py_int x = (if 0 \<le> x then \<lfloor>x\<rfloor> else \<lceil>x\<rceil>)"

definition calculate_priority :: "real \<Rightarrow> int \<Rightarrow> int" where
  "calculate_priority current_emissions impact =
     (let emission_score = min (current_emissions / 100) 5;
          impact_score = min (\<bar>real_of_int impact\<bar> / 500) 5
      in py_int (emission_score + impact_score))"

definition estimate_difficulty :: "string \<Rightarrow> string" where
  "estimate_difficulty recommendation_text =
     (let rec_lower = lower recommendation_text;
          high_difficulty_keywords = [''switch'', ''install'', ''upgrade'', ''renewable''];
          medium_difficulty_keywords = [''reduce'', ''increase'', ''improve'', ''plan'']
      in if list_ex (\<lambda>keyword. contains rec_lower keyword) high_difficulty_keywords
         then ''High''
         else if list_ex (\<lambda>keyword. contains rec_lower keyword) medium_difficulty_keywords
         then ''Medium''
         else ''Low'')"

text \<open>One recommendation: the dictionary with the five keys the engine writes.\<close>

record rec_item =
  category :: string
  recommendation :: string
  impact_estimate :: int
  priority :: int
  difficulty :: string

text \<open>The thresholds of \<open>get_personalized_recommendations\<close>: category, (high, medium).\<close>

definition thresholds :: "(string \<times> (real \<times> real)) list" where
  "thresholds =
     [(''transportation'', (100, 50)), (''energy'', (200, 100)),
      (''food'', (150, 75)), (''waste'', (50, 25))]"

definition emission_level :: "real \<Rightarrow> real \<times> real \<Rightarrow> string" where
  "emission_level emissions th =
     (if emissions > fst th then ''high_emissions''
      else if emissions > snd th then ''medium_emissions''
      else ''low_emissions'')"

text \<open>The inner loop: one dictionary per recommendation text.\<close>

definition score_rec :: "string \<Rightarrow> real \<Rightarrow> string \<Rightarrow> py_error + rec_item" where
  "score_rec cat emissions rec =
     and_then (extract_action_key rec cat) (\<lambda>action_key.
     and_then (dict_item impact_estimates cat) (\<lambda>estimates.
       let impact = dict_get estimates action_key 0 in
       Inr \<lparr> category = title cat,
             recommendation = rec,
             impact_estimate = impact,
             priority = calculate_priority emissions impact,
             difficulty = estimate_difficulty rec \<rparr>))"

fun score_recs :: "string \<Rightarrow> real \<Rightarrow> string list \<Rightarrow> py_error + rec_item list" where
  "score_recs cat emissions [] = Inr []"
| "score_recs cat emissions (rec # recs) =
     and_then (score_rec cat emissions rec) (\<lambda>item.
     and_then (score_recs cat emissions recs) (\<lambda>items. Inr (item # items)))"

text \<open>The body of the outer loop for one category other than \<open>total\<close>.\<close>

definition category_recommendations :: "string \<Rightarrow> real \<Rightarrow> py_error + rec_item list" where
  "category_recommendations cat emissions =
     and_then (dict_item thresholds cat) (\<lambda>th.
     and_then (dict_item recommendation_database cat) (\<lambda>levels.
     and_then (dict_item levels (emission_level emissions th)) (\<lambda>category_recs.
       score_recs cat emissions (take 2 category_recs))))"

fun collect_recommendations ::
    "(string \<times> real) list \<Rightarrow> rec_item list \<Rightarrow> py_error + rec_item list" where
  "collect_recommendations [] recommendations = Inr recommendations"
| "collect_recommendations ((cat, emissions) # rest) recommendations =
     (if cat = ''total'' then collect_recommendations rest recommendations
      else and_then (category_recommendations cat emissions) (\<lambda>items.
             collect_recommendations rest (recommendations @ items)))"

text \<open>
  \<open>list.sort(key=f, reverse=True)\<close>: the list is reversed, sorted stably by ascending
  key and reversed again, so that items with equal keys keep their order.
\<close>

definition sort_reverse :: "('a \<Rightarrow> 'k::linorder) \<Rightarrow> 'a list \<Rightarrow> 'a list" where
  "sort_reverse f xs = rev (sort_key f (rev xs))"

definition sort_key_of :: "rec_item \<Rightarrow> int \<times> int" where
  "sort_key_of x = (priority x, \<bar>impact_estimate x\<bar>)"

text \<open>
  \<open>get_personalized_recommendations\<close>; \<open>user_footprint\<close> is the dictionary's items in
  order. The arguments \<open>user_patterns\<close> and \<open>user_goals\<close> are never read.
\<close>

definition get_personalized_recommendations ::
    "(string \<times> real) list \<Rightarrow> py_error + rec_item list" where
  "get_personalized_recommendations user_footprint =
     and_then (collect_recommendations user_footprint []) (\<lambda>recommendations.
       Inr (take 8 (sort_reverse sort_key_of recommendations)))"

text \<open>
  \<open>generate_action_plan\<close>: the three phases and the total, which is summed over the
  phases before it is stored. The argument \<open>timeframe_weeks\<close> is never read.
\<close>

record phase =
  focus :: string
  actions :: "rec_item list"
  expected_reduction :: int

record action_plan =
  weeks_1_2 :: phase
  weeks_3_6 :: phase
  weeks_7_12 :: phase
  total_potential_reduction :: int

definition reduction_of :: "rec_item list \<Rightarrow> int" where
  "reduction_of rs = py_sum (map (\<lambda>r. \<bar>impact_estimate r\<bar>) rs)"

definition generate_action_plan :: "rec_item list \<Rightarrow> action_plan" where
  "generate_action_plan recommendations =
     (let easy_wins = filter (\<lambda>r. difficulty r = ''Low'') recommendations;
          medium_actions = filter (\<lambda>r. difficulty r = ''Medium'') recommendations;
          major_changes = filter (\<lambda>r. difficulty r = ''High'') recommendations;
          p1 = \<lparr> focus = ''Quick Wins'', actions = take 3 easy_wins,
                 expected_reduction = reduction_of (take 3 easy_wins) \<rparr>;
          p2 = \<lparr> focus = ''Habit Changes'', actions = take 3 medium_actions,
                 expected_reduction = reduction_of (take 3 medium_actions) \<rparr>;
          p3 = \<lparr> focus = ''Major Improvements'', actions = take 2 major_changes,
                 expected_reduction = reduction_of (take 2 major_changes) \<rparr>;
          total_reduction = py_sum (map expected_reduction [p1, p2, p3])
      in \<lparr> weeks_1_2 = p1, weeks_3_6 = p2, weeks_7_12 = p3,
            total_potential_reduction = total_reduction \<rparr>)"


section \<open>Trend forecaster (\<open>predict_future_trend\<close> in \<open>ml_models.py\<close>)\<close>

text \<open>
  \<open>np.polyfit(x, y, 1)[0]\<close>: the slope of the least-squares line through the points,
  by its closed form.
\<close>

definition polyfit_slope :: "real list \<Rightarrow> real list \<Rightarrow> real" where
  "polyfit_slope xs ys =
     (let n = real (length xs);
          sx = sum_list xs;
          sy = sum_list ys;
          sxy = sum_list (map2 (*) xs ys);
          sxx = sum_list (map (\<lambda>x. x * x) xs)
      in (n * sxy - sx * sy) / (n * sxx - sx * sx))"

text \<open>
  The random source is a parameter: \<open>gauss k\<close> is the standard normal variate behind the
  \<open>k\<close>-th call of \<open>np.random.normal\<close>, which returns \<open>loc + scale * gauss k\<close>. A property
  that holds for every \<open>gauss\<close> holds whatever noise is drawn.

  \<open>historical_data[-1]\<close> raises \<open>IndexError\<close> on the empty list, \<open>[v] * n\<close> is empty for
  \<open>n \<le> 0\<close>, \<open>historical_data[-30:]\<close> keeps the last 30 values (all of them when there are
  fewer), and \<open>range(1, days_ahead + 1)\<close> is \<open>[1..days_ahead]\<close>.
\<close>

definition predict_future_trend :: "(nat \<Rightarrow> real) \<Rightarrow> real list \<Rightarrow> int \<Rightarrow> py_error + real list" where
  "predict_future_trend gauss historical_data days_ahead =
     (if length historical_data < 7 then
        (if historical_data = [] then Inl (IndexError ''list index out of range'')
         else Inr (replicate (nat days_ahead) (last historical_data)))
      else
        (let recent_data = drop (length historical_data - 30) historical_data;
             x = map real [0..<length recent_data];
             trend_slope = polyfit_slope x recent_data;
             last_value = last historical_data
         in Inr (map (\<lambda>i.
                   let projected_value = last_value + trend_slope * real_of_int i;
                       variation = 0 + \<bar>projected_value\<bar> * 0.05 * gauss (nat (i - 1))
                   in max 0 (projected_value + variation))
                 [1..days_ahead])))"


section \<open>Synthetic data generator (\<open>generate_synthetic_data\<close> in \<open>ml_models.py\<close>)\<close>

text \<open>
  The generator behind \<open>np.random\<close> is a parameter: for each column (named by the
  dictionary key the array is stored under) and each row it supplies the raw variate of
  that draw, an integer or a real. The functions below turn raw variates into arrays the
  way the numpy calls do; the probabilities themselves are not modelled. \<open>choice\<close> picks
  an element of its list, whatever the weights \<open>p\<close>. The stream that follows
  \<open>np.random.seed(42)\<close> is one such generator for each \<open>n_samples\<close>, so what holds for
  every generator holds for the seeded one.
\<close>

record generator =
  raw_int :: "string \<Rightarrow> nat \<Rightarrow> nat"
  raw_real :: "string \<Rightarrow> nat \<Rightarrow> real"

definition np_randint :: "generator \<Rightarrow> string \<Rightarrow> int \<Rightarrow> int \<Rightarrow> nat \<Rightarrow> int list" where
  "np_randint g col low high n =
     map (\<lambda>i. low + int (raw_int g col i) mod (high - low)) [0..<n]"

definition np_normal :: "generator \<Rightarrow> string \<Rightarrow> real \<Rightarrow> real \<Rightarrow> nat \<Rightarrow> real list" where
  "np_normal g col loc scale n = map (\<lambda>i. loc + scale * raw_real g col i) [0..<n]"

definition np_exponential :: "generator \<Rightarrow> string \<Rightarrow> real \<Rightarrow> nat \<Rightarrow> real list" where
  "np_exponential g col scale n = map (\<lambda>i. scale * \<bar>raw_real g col i\<bar>) [0..<n]"

definition np_poisson :: "generator \<Rightarrow> string \<Rightarrow> nat \<Rightarrow> int list" where
  "np_poisson g col n = map (\<lambda>i. int (raw_int g col i)) [0..<n]"

definition np_uniform :: "generator \<Rightarrow> string \<Rightarrow> real \<Rightarrow> real \<Rightarrow> nat \<Rightarrow> real list" where
  "np_uniform g col low high n =
     map (\<lambda>i. low + (high - low) * raw_real g col i) [0..<n]"

definition np_choice :: "generator \<Rightarrow> string \<Rightarrow> 'a list \<Rightarrow> nat \<Rightarrow> 'a list" where
  "np_choice g col options n =
     map (\<lambda>i. options ! (raw_int g col i mod length options)) [0..<n]"

text \<open>The data frame: one typed array per column, in the order the columns are made.\<close>

record synthetic_frame =
  age :: "int list"
  income :: "real list"
  household_size :: "int list"
  location_type :: "string list"
  car_miles_per_week :: "real list"
  public_transport_usage :: "int list"
  flights_per_year :: "int list"
  vehicle_type :: "string list"
  electricity_kwh_monthly :: "real list"
  natural_gas_therms_monthly :: "real list"
  home_size_sqft :: "real list"
  renewable_energy :: "int list"
  meat_meals_per_week :: "int list"
  local_food_percentage :: "real list"
  organic_food_percentage :: "real list"
  waste_kg_per_week :: "real list"
  recycling_percentage :: "real list"
  composting :: "int list"
  carbon_footprint :: "real list"

definition column_lengths :: "synthetic_frame \<Rightarrow> nat list" where
  "column_lengths df =
     [length (age df), length (income df), length (household_size df),
      length (location_type df), length (car_miles_per_week df),
      length (public_transport_usage df), length (flights_per_year df),
      length (vehicle_type df), length (electricity_kwh_monthly df),
      length (natural_gas_therms_monthly df), length (home_size_sqft df),
      length (renewable_energy df), length (meat_meals_per_week df),
      length (local_food_percentage df), length (organic_food_percentage df),
      length (waste_kg_per_week df), length (recycling_percentage df),
      length (composting df), length (carbon_footprint df)]"

text \<open>
  The target of row \<open>i\<close> before the noise is added: the arithmetic on the columns is
  elementwise, all columns having the same index.
\<close>

definition footprint_formula :: "synthetic_frame \<Rightarrow> nat \<Rightarrow> real" where
  "footprint_formula df i =
     car_miles_per_week df ! i * 52 * 0.411
     + real_of_int (flights_per_year df ! i) * 1000 * 0.225
     + electricity_kwh_monthly df ! i * 12 * 0.92
         * (1 - real_of_int (renewable_energy df ! i) * 0.8)
     + natural_gas_therms_monthly df ! i * 12 * 5.3
     + real_of_int (meat_meals_per_week df ! i) * 52 * 2.5
     + waste_kg_per_week df ! i * 52 * 0.57 * (1 - recycling_percentage df ! i / 100)"

text \<open>
  \<open>generate_synthetic_data\<close>. A negative \<open>n_samples\<close> is refused by the first numpy call
  (\<open>ValueError\<close>: negative dimensions are not allowed).
\<close>

definition generate_synthetic_data :: "generator \<Rightarrow> int \<Rightarrow> py_error + synthetic_frame" where
  "generate_synthetic_data g n_samples =
     (if n_samples < 0 then Inl (ValueError ''negative dimensions are not allowed'')
      else
        (let n = nat n_samples;
             df = \<lparr> age = np_randint g ''age'' 18 80 n,
                    income = np_normal g ''income'' 50000 20000 n,
                    household_size = np_randint g ''household_size'' 1 6 n,
                    location_type =
                      np_choice g ''location_type'' [''urban'', ''suburban'', ''rural''] n,
                    car_miles_per_week = np_exponential g ''car_miles_per_week'' 100 n,
                    public_transport_usage = np_randint g ''public_transport_usage'' 0 7 n,
                    flights_per_year = np_poisson g ''flights_per_year'' n,
                    vehicle_type =
                      np_choice g ''vehicle_type''
                        [''gasoline'', ''diesel'', ''electric'', ''hybrid''] n,
                    electricity_kwh_monthly = np_normal g ''electricity_kwh_monthly'' 900 300 n,
                    natural_gas_therms_monthly =
                      np_normal g ''natural_gas_therms_monthly'' 50 20 n,
                    home_size_sqft = np_normal g ''home_size_sqft'' 2000 800 n,
                    renewable_energy = np_choice g ''renewable_energy'' [0, 1] n,
                    meat_meals_per_week = np_randint g ''meat_meals_per_week'' 0 21 n,
                    local_food_percentage = np_uniform g ''local_food_percentage'' 0 100 n,
                    organic_food_percentage = np_uniform g ''organic_food_percentage'' 0 100 n,
                    waste_kg_per_week = np_normal g ''waste_kg_per_week'' 15 5 n,
                    recycling_percentage = np_uniform g ''recycling_percentage'' 0 100 n,
                    composting = np_choice g ''composting'' [0, 1] n,
                    carbon_footprint = [] \<rparr>;
             target = map (footprint_formula df) [0..<n];
             noisy = map2 (+) target (np_normal g ''carbon_footprint'' 0 500 n);
             floored = map (\<lambda>v. max v 1000) noisy
         in Inr (df \<lparr> carbon_footprint := floored \<rparr>)))"


section \<open>Footprint predictor (\<open>CarbonFootprintPredictor\<close> in \<open>ml_models.py\<close>)\<close>

text \<open>
  A data frame is the ordered list of its named columns; a cell holds a number or a
  string. A frame has zero rows when every column is empty.
\<close>

datatype cell = Num real | Str string

type_synonym column = "cell list"

type_synonym frame = "(string \<times> column) list"

definition zero_rows :: "frame \<Rightarrow> bool" where
  "zero_rows df = list_all (\<lambda>(name, values). values = []) df"

text \<open>\<open>df[names]\<close>: the named columns in the order asked, \<open>KeyError\<close> on a missing one.\<close>

fun frame_select :: "frame \<Rightarrow> string list \<Rightarrow> py_error + frame" where
  "frame_select df [] = Inr []"
| "frame_select df (name # names) =
     and_then (dict_item df name) (\<lambda>values.
     and_then (frame_select df names) (\<lambda>others. Inr ((name, values) # others)))"

text \<open>\<open>df[name] = values\<close>: the column is replaced in place, or added last.\<close>

definition set_column :: "frame \<Rightarrow> string \<Rightarrow> column \<Rightarrow> frame" where
  "set_column df name values = dict_set df name values"

text \<open>\<open>df[names] = array\<close>: the columns of the array are stored under the names, by position.\<close>

fun set_columns :: "frame \<Rightarrow> string list \<Rightarrow> column list \<Rightarrow> frame" where
  "set_columns df (name # names) (values # array) =
     set_columns (set_column df name values) names array"
| "set_columns df names array = df"

text \<open>\<open>df.drop(name, axis=1)\<close>: \<open>KeyError\<close> when the column is missing.\<close>

definition frame_drop :: "frame \<Rightarrow> string \<Rightarrow> py_error + frame" where
  "frame_drop df name =
     (if name \<in> set (map fst df) then Inr (filter (\<lambda>(k, values). k \<noteq> name) df)
      else Inl (KeyError name))"

text \<open>
  The fitted objects of scikit-learn, xgboost and lightgbm are library code. Each is
  represented by the one method the predictor calls on it after fitting.
\<close>

datatype label_encoder = LabelEncoder (transform: "column \<Rightarrow> py_error + column")

datatype standard_scaler = StandardScaler (scaler_transform: "frame \<Rightarrow> py_error + column list")

datatype regressor = Regressor (model_predict: "frame \<Rightarrow> py_error + real list")

text \<open>The four attributes of a \<open>CarbonFootprintPredictor\<close>, and \<open>__init__\<close>.\<close>

record predictor =
  models :: "(string \<times> regressor) list"
  scalers :: "(string \<times> standard_scaler) list"
  encoders :: "(string \<times> label_encoder) list"
  feature_names :: "string list"

definition new_predictor :: predictor where
  "new_predictor = \<lparr> models = [], scalers = [], encoders = [], feature_names = [] \<rparr>"

definition categorical_cols :: "string list" where
  "categorical_cols = [''location_type'', ''vehicle_type'']"

text \<open>
  \<open>preprocess_data(df, is_training=False)\<close>: a categorical column of the frame is encoded
  when an encoder is stored for it, and the feature columns are scaled when a scaler is
  stored. The predictor is not changed.
\<close>

fun encode_stored :: "predictor \<Rightarrow> string list \<Rightarrow> frame \<Rightarrow> py_error + frame" where
  "encode_stored p [] df = Inr df"
| "encode_stored p (col # cols) df =
     (case map_of df col of
        None \<Rightarrow> encode_stored p cols df
      | Some values \<Rightarrow>
          (case map_of (encoders p) col of
             None \<Rightarrow> encode_stored p cols df
           | Some encoder \<Rightarrow>
               and_then (transform encoder values) (\<lambda>codes.
                 encode_stored p cols (set_column df col codes))))"

definition preprocess_data_inference :: "predictor \<Rightarrow> frame \<Rightarrow> py_error + frame" where
  "preprocess_data_inference p df =
     and_then (encode_stored p categorical_cols df) (\<lambda>df_processed.
       case map_of (scalers p) ''features'' of
         None \<Rightarrow> Inr df_processed
       | Some scaler \<Rightarrow>
           and_then (frame_select df_processed (feature_names p)) (\<lambda>features.
           and_then (scaler_transform scaler features) (\<lambda>scaled.
             Inr (set_columns df_processed (feature_names p) scaled))))"

text \<open>
  \<open>predict_footprint\<close>. The first statement is the only check the method makes itself:
  a \<open>model_name\<close> that is not a key of \<open>self.models\<close> raises \<open>ValueError\<close>.
  \<open>pd.DataFrame([user_data])\<close> is the one-row frame of the dictionary.
\<close>

definition not_trained_message :: "string \<Rightarrow> string" where
  "not_trained_message model_name = ''Model '' @ model_name @ '' not trained yet''"

definition predict_footprint ::
    "predictor \<Rightarrow> (string \<times> cell) list \<Rightarrow> string \<Rightarrow> py_error + real" where
  "predict_footprint p user_data model_name =
     (case map_of (models p) model_name of
        None \<Rightarrow> Inl (ValueError (not_trained_message model_name))
      | Some model \<Rightarrow>
          (let df_user = map (\<lambda>(key, v). (key, [v])) user_data in
           and_then (preprocess_data_inference p df_user) (\<lambda>df_processed.
           and_then (frame_select df_processed (feature_names p)) (\<lambda>features.
           and_then (model_predict model features) (\<lambda>prediction.
             case prediction of
               [] \<Rightarrow> Inl (IndexError ''index 0 is out of bounds'')
             | first # others \<Rightarrow> Inr first)))))"

text \<open>
  Training calls into the libraries to build and fit new objects. What these calls do
  is not code of the repository, so the library is a parameter: one function for each
  call \<open>train_models\<close> and \<open>preprocess_data\<close> make, returning the fitted object and the
  result, or the exception the call raises.
\<close>

record sklearn =
  label_fit_transform :: "column \<Rightarrow> py_error + (label_encoder \<times> column)"
  scaler_fit_transform :: "frame \<Rightarrow> py_error + (standard_scaler \<times> column list)"
  train_test_split ::
    "frame \<Rightarrow> column \<Rightarrow> py_error + ((frame \<times> frame) \<times> (column \<times> column))"
  fit_model :: "string \<Rightarrow> frame \<Rightarrow> column \<Rightarrow> py_error + regressor"
  mean_squared_error :: "column \<Rightarrow> real list \<Rightarrow> py_error + real"
  r2_score :: "column \<Rightarrow> real list \<Rightarrow> py_error + real"
  cross_val_score :: "regressor \<Rightarrow> frame \<Rightarrow> column \<Rightarrow> py_error + real list"

text \<open>
  \<open>preprocess_data(df, is_training=True)\<close>: every categorical column of the frame gets a
  new encoder, fitted on it; the feature columns are all columns but \<open>carbon_footprint\<close>;
  a new scaler is fitted on them. Returns the updated predictor with the frame.
\<close>

fun encode_fitting ::
    "sklearn \<Rightarrow> string list \<Rightarrow> predictor \<times> frame \<Rightarrow> py_error + predictor \<times> frame" where
  "encode_fitting lib [] (p, df) = Inr (p, df)"
| "encode_fitting lib (col # cols) (p, df) =
     (case map_of df col of
        None \<Rightarrow> encode_fitting lib cols (p, df)
      | Some values \<Rightarrow>
          and_then (label_fit_transform lib values) (\<lambda>(encoder, codes).
            encode_fitting lib cols
              (p \<lparr> encoders := dict_set (encoders p) col encoder \<rparr>,
               set_column df col codes)))"

definition preprocess_data_training ::
    "sklearn \<Rightarrow> predictor \<Rightarrow> frame \<Rightarrow> py_error + predictor \<times> frame" where
  "preprocess_data_training lib p df =
     and_then (encode_fitting lib categorical_cols (p, df)) (\<lambda>(p1, df_processed).
       let feature_cols = filter (\<lambda>col. col \<noteq> ''carbon_footprint'') (map fst df_processed);
           p2 = p1 \<lparr> feature_names := feature_cols \<rparr>
       in and_then (frame_select df_processed feature_cols) (\<lambda>features.
          and_then (scaler_fit_transform lib features) (\<lambda>(scaler, scaled).
            Inr (p2 \<lparr> scalers := dict_set (scalers p2) ''features'' scaler \<rparr>,
                 set_columns df_processed feature_cols scaled))))"

text \<open>The metrics stored for one model; \<open>mean\<close> and \<open>std\<close> as numpy computes them.\<close>

record metrics =
  mse :: real
  rmse :: real
  r2 :: real
  cv_mean :: real
  cv_std :: real

definition np_mean :: "real list \<Rightarrow> real" where
  "np_mean xs = sum_list xs / real (length xs)"

definition np_std :: "real list \<Rightarrow> real" where
  "np_std xs = sqrt (np_mean (map (\<lambda>x. (x - np_mean xs) * (x - np_mean xs)) xs))"

definition models_to_train :: "string list" where
  "models_to_train = [''random_forest'', ''gradient_boosting'', ''xgboost'', ''lightgbm'']"

text \<open>The loop of \<open>train_models\<close> over the models to train.\<close>

fun train_each ::
    "sklearn \<Rightarrow> string list \<Rightarrow> (frame \<times> frame) \<times> (column \<times> column) \<Rightarrow>
       predictor \<times> (string \<times> metrics) list \<Rightarrow>
       py_error + (string \<times> metrics) list \<times> predictor" where
  "train_each lib [] split (p, results) = Inr (results, p)"
| "train_each lib (name # names) split (p, results) =
     (case split of ((X_train, X_test), (y_train, y_test)) \<Rightarrow>
        and_then (fit_model lib name X_train y_train) (\<lambda>model.
        and_then (model_predict model X_test) (\<lambda>y_pred.
        and_then (mean_squared_error lib y_test y_pred) (\<lambda>mse_value.
        and_then (r2_score lib y_test y_pred) (\<lambda>r2_value.
        and_then (cross_val_score lib model X_train y_train) (\<lambda>cv_scores.
          train_each lib names split
            (p \<lparr> models := dict_set (models p) name model \<rparr>,
             dict_set results name
               \<lparr> mse = mse_value, rmse = sqrt mse_value, r2 = r2_value,
                 cv_mean = np_mean cv_scores, cv_std = np_std cv_scores \<rparr>)))))))"

text \<open>
  \<open>train_models\<close>: the result is the report with the predictor as it is after the call,
  or the first exception raised (the state a failed call leaves behind is not kept).
  No statement of the method looks at the number of rows.
\<close>

definition train_models ::
    "sklearn \<Rightarrow> predictor \<Rightarrow> frame \<Rightarrow> py_error + (string \<times> metrics) list \<times> predictor" where
  "train_models lib p df =
     and_then (preprocess_data_training lib p df) (\<lambda>(p1, df_processed).
     and_then (frame_drop df_processed ''carbon_footprint'') (\<lambda>X.
     and_then (dict_item df_processed ''carbon_footprint'') (\<lambda>y.
     and_then (train_test_split lib X y) (\<lambda>split.
       train_each lib models_to_train split (p1, [])))))"


section \<open>Example inputs\<close>

text \<open>The footprint of the specification's classification scenario.\<close>

definition example_footprint :: "(string \<times> real) list" where
  "example_footprint =
     [(''transportation'', 150), (''energy'', 50), (''food'', 50), (''waste'', 10),
      (''total'', 260)]"

text \<open>Six recommendations: four of low, one of medium and one of high difficulty.\<close>

definition example_recommendations_list :: "rec_item list" where
  "example_recommendations_list =
     [\<lparr>category = ''Transportation'',
         recommendation =
           ''Switch to an electric or hybrid vehicle - can reduce emissions by 40-60%'',
         impact_estimate = - 2000, priority = 5, difficulty = ''High''\<rparr>,
      \<lparr>category = ''Energy'',
         recommendation = ''Excellent energy management!'',
         impact_estimate = - 1500, priority = 3, difficulty = ''Low''\<rparr>,
      \<lparr>category = ''Energy'',
         recommendation = ''Continue your energy-efficient practices'',
         impact_estimate = - 1500, priority = 3, difficulty = ''Low''\<rparr>,
      \<lparr>category = ''Transportation'',
         recommendation = ''Use public transportation for daily commutes'',
         impact_estimate = - 1200, priority = 3, difficulty = ''Low''\<rparr>,
      \<lparr>category = ''Food'',
         recommendation = ''Your food choices are climate-friendly!'',
         impact_estimate = - 500, priority = 1, difficulty = ''Low''\<rparr>,
      \<lparr>category = ''Waste'',
         recommendation = ''Increase recycling rate to 80% or higher'',
         impact_estimate = - 200, priority = 1, difficulty = ''Medium''\<rparr>]"

text \<open>A generator for running \<open>generate_synthetic_data\<close> on an example.\<close>

definition zero_generator :: generator where
  "zero_generator = \<lparr> raw_int = (\<lambda>col i. i), raw_real = (\<lambda>col i. 0) \<rparr>"

text \<open>
  A stand-in for the libraries, for running the predictor on examples. Its scaler
  refuses a frame without rows with the \<open>ValueError\<close> of scikit-learn's input validation
  (fitting needs at least one sample); its label encoder accepts an empty column, as
  scikit-learn's does; every other call succeeds with a trivial result.
\<close>

definition zero_sample_message :: string where
  "zero_sample_message =
     ''Found array with 0 sample(s) while a minimum of 1 is required by StandardScaler.''"

definition sklearn_double :: sklearn where
  "sklearn_double =
     \<lparr> label_fit_transform =
         (\<lambda>values. Inr (LabelEncoder (\<lambda>c. Inr (map (\<lambda>v. Num 0) c)),
                         map (\<lambda>v. Num 0) values)),
       scaler_fit_transform =
         (\<lambda>X. if zero_rows X then Inl (ValueError zero_sample_message)
              else Inr (StandardScaler (\<lambda>Y. Inr (map snd Y)), map snd X)),
       train_test_split = (\<lambda>X y. Inr ((X, X), (y, y))),
       fit_model =
         (\<lambda>name X y.
            Inr (Regressor (\<lambda>Z. Inr (map (\<lambda>v. 0) (concat (map snd (take 1 Z))))))),
       mean_squared_error = (\<lambda>y_true y_pred. Inr 0),
       r2_score = (\<lambda>y_true y_pred. Inr 1),
       cross_val_score = (\<lambda>model X y. Inr [1, 1, 1, 1, 1]) \<rparr>"

text \<open>A dataset of two rows, the same columns without rows, and one user.\<close>

definition example_dataset :: frame where
  "example_dataset =
     [(''location_type'', [Str ''urban'', Str ''rural'']),
      (''car_miles_per_week'', [Num 100, Num 40]),
      (''vehicle_type'', [Str ''gasoline'', Str ''electric'']),
      (''carbon_footprint'', [Num 5000, Num 2500])]"

definition empty_dataset :: frame where
  "empty_dataset =
     [(''location_type'', []), (''car_miles_per_week'', []), (''vehicle_type'', []),
      (''carbon_footprint'', [])]"

definition example_user :: "(string \<times> cell) list" where
  "example_user =
     [(''location_type'', Str ''urban''), (''car_miles_per_week'', Num 120),
      (''vehicle_type'', Str ''hybrid'')]"

text \<open>The predictor after \<open>train_models\<close> on the two-row dataset.\<close>

definition trained_predictor :: predictor where
  "trained_predictor =
     (case train_models sklearn_double new_predictor example_dataset of
        Inl e \<Rightarrow> new_predictor
      | Inr (report, p) \<Rightarrow> p)"

text \<open>The categories a footprint breakdown can hold besides \<open>total\<close>.\<close>

definition known_categories :: "string set" where
  "known_categories = {''transportation'', ''energy'', ''food'', ''waste''}"


section \<open>Emission calculator: results\<close>

lemma py_sum_append: "py_sum (xs @ ys) = py_sum xs + py_sum (ys :: real list)"
proof -
  have gen: "foldl (+) a zs = a + foldl (+) 0 (zs :: real list)" for a zs
  proof (induction zs arbitrary: a)
    case Nil
    show ?case by simp
  next
    case (Cons z zs)
    have "foldl (+) a (z # zs) = foldl (+) (a + z) zs" by simp
    also have "\<dots> = (a + z) + foldl (+) 0 zs" by (rule Cons.IH)
    also have "\<dots> = a + (z + foldl (+) 0 zs)" by simp
    also have "z + foldl (+) 0 zs = foldl (+) z zs" using Cons.IH [of z] by simp
    finally show ?case by simp
  qed
  show ?thesis unfolding py_sum_def foldl_append using gen [of "foldl (+) 0 xs" ys] by simp
qed

lemma values_put_if_present:
  "py_sum (map snd (put_if_present key calc entry b)) =
     py_sum (map snd b) + contribution calc entry"
  by (cases entry)
     (simp_all add: put_if_present_def contribution_def py_sum_append, simp add: py_sum_def)

lemma map_of_put_other:
  "map_of b key = None \<Longrightarrow> key \<noteq> key' \<Longrightarrow>
     map_of (put_if_present key' calc entry b) key = None"
  by (cases entry) (simp_all add: put_if_present_def map_add_def)

lemma map_of_put_same:
  "map_of b key = None \<Longrightarrow>
     map_of (put_if_present key calc entry b) key = map_option calc entry"
  by (cases entry) (simp_all add: put_if_present_def map_add_def)

lemma map_of_put_keep:
  "map_of b key = Some v \<Longrightarrow> map_of (put_if_present key' calc entry b) key = Some v"
  by (cases entry) (simp_all add: put_if_present_def map_add_def)

text \<open>
  C1. In the dictionary returned by \<open>calculate_total_footprint\<close>, each category present
  in the input holds the value its calculator computes from that input (an absent
  category has no entry), and \<open>total\<close> is the sum of the four category values, an absent
  category counting as zero.
\<close>

theorem total_is_sum_of_categories:
  "map_of (calculate_total_footprint ud) ''transportation'' =
       map_option calculate_transportation_footprint (transportation ud)
   \<and> map_of (calculate_total_footprint ud) ''energy'' =
       map_option calculate_energy_footprint (energy ud)
   \<and> map_of (calculate_total_footprint ud) ''food'' =
       map_option calculate_food_footprint (food ud)
   \<and> map_of (calculate_total_footprint ud) ''waste'' =
       map_option calculate_waste_footprint (waste ud)
   \<and> map_of (calculate_total_footprint ud) ''total'' =
       Some (contribution calculate_transportation_footprint (transportation ud)
           + contribution calculate_energy_footprint (energy ud)
           + contribution calculate_food_footprint (food ud)
           + contribution calculate_waste_footprint (waste ud))"
proof -
  define b1 where "b1 = put_if_present ''transportation'' calculate_transportation_footprint
                 (transportation ud) []"
  define b2 where "b2 = put_if_present ''energy'' calculate_energy_footprint (energy ud) b1"
  define b3 where "b3 = put_if_present ''food'' calculate_food_footprint (food ud) b2"
  define b4 where "b4 = put_if_present ''waste'' calculate_waste_footprint (waste ud) b3"
  have res: "calculate_total_footprint ud = b4 @ [(''total'', py_sum (map snd b4))]"
    by (simp add: calculate_total_footprint_def Let_def b1_def b2_def b3_def b4_def)
  have t1: "map_of b1 ''transportation'' =
              map_option calculate_transportation_footprint (transportation ud)"
    unfolding b1_def by (rule map_of_put_same) simp
  have t4: "map_of b4 ''transportation'' =
              map_option calculate_transportation_footprint (transportation ud)"
  proof (cases "transportation ud")
    case None
    then have "map_of b1 ''transportation'' = None" using t1 by simp
    then have "map_of b2 ''transportation'' = None"
      unfolding b2_def by (rule map_of_put_other) simp
    then have "map_of b3 ''transportation'' = None"
      unfolding b3_def by (rule map_of_put_other) simp
    then have "map_of b4 ''transportation'' = None"
      unfolding b4_def by (rule map_of_put_other) simp
    then show ?thesis using None by simp
  next
    case (Some d)
    then show ?thesis using t1 by (simp add: b2_def b3_def b4_def map_of_put_keep)
  qed
  have e1: "map_of b1 ''energy'' = None" unfolding b1_def by (rule map_of_put_other) simp_all
  have e2: "map_of b2 ''energy'' = map_option calculate_energy_footprint (energy ud)"
    unfolding b2_def using e1 by (rule map_of_put_same)
  have e4: "map_of b4 ''energy'' = map_option calculate_energy_footprint (energy ud)"
  proof (cases "energy ud")
    case None
    then have "map_of b2 ''energy'' = None" using e2 by simp
    then have "map_of b3 ''energy'' = None" unfolding b3_def by (rule map_of_put_other) simp
    then have "map_of b4 ''energy'' = None" unfolding b4_def by (rule map_of_put_other) simp
    then show ?thesis using None by simp
  next
    case (Some d)
    then show ?thesis using e2 by (simp add: b3_def b4_def map_of_put_keep)
  qed
  have f1: "map_of b1 ''food'' = None" unfolding b1_def by (rule map_of_put_other) simp_all
  have f2: "map_of b2 ''food'' = None" unfolding b2_def using f1 by (rule map_of_put_other) simp
  have f3: "map_of b3 ''food'' = map_option calculate_food_footprint (food ud)"
    unfolding b3_def using f2 by (rule map_of_put_same)
  have f4: "map_of b4 ''food'' = map_option calculate_food_footprint (food ud)"
  proof (cases "food ud")
    case None
    then have "map_of b3 ''food'' = None" using f3 by simp
    then have "map_of b4 ''food'' = None" unfolding b4_def by (rule map_of_put_other) simp
    then show ?thesis using None by simp
  next
    case (Some d)
    then show ?thesis using f3 by (simp add: b4_def map_of_put_keep)
  qed
  have w1: "map_of b1 ''waste'' = None" unfolding b1_def by (rule map_of_put_other) simp_all
  have w2: "map_of b2 ''waste'' = None" unfolding b2_def using w1 by (rule map_of_put_other) simp
  have w3: "map_of b3 ''waste'' = None" unfolding b3_def using w2 by (rule map_of_put_other) simp
  have w4: "map_of b4 ''waste'' = map_option calculate_waste_footprint (waste ud)"
    unfolding b4_def using w3 by (rule map_of_put_same)
  have x1: "map_of b1 ''total'' = None" unfolding b1_def by (rule map_of_put_other) simp_all
  have x2: "map_of b2 ''total'' = None" unfolding b2_def using x1 by (rule map_of_put_other) simp
  have x3: "map_of b3 ''total'' = None" unfolding b3_def using x2 by (rule map_of_put_other) simp
  have x4: "map_of b4 ''total'' = None" unfolding b4_def using x3 by (rule map_of_put_other) simp
  have s: "py_sum (map snd b4) =
        contribution calculate_transportation_footprint (transportation ud)
           + contribution calculate_energy_footprint (energy ud)
           + contribution calculate_food_footprint (food ud)
           + contribution calculate_waste_footprint (waste ud)"
    unfolding b4_def b3_def b2_def b1_def values_put_if_present by (simp add: py_sum_def)
  have k: "map_of (b4 @ [(''total'', v)]) key =
             (if key = ''total''
              then (case map_of b4 ''total'' of None \<Rightarrow> Some v | Some u \<Rightarrow> Some u)
              else map_of b4 key)" for v key
    by (simp add: map_add_def split: option.splits)
  show ?thesis unfolding res k using t4 e4 f4 w4 x4 s by simp
qed


section \<open>Recommendation engine: results\<close>

lemmas string_ops =
  title_def upper_char_def lower_char_def upper_letters_def lower_letters_def is_cased_def
  lower_def

lemma titles:
  "title ''transportation'' = ''Transportation''" "title ''energy'' = ''Energy''"
  "title ''food'' = ''Food''" "title ''waste'' = ''Waste''"
  by (simp_all add: string_ops)

lemma and_then_Inr [simp]: "and_then (Inr v) f = f v"
  by (simp add: and_then_def)

lemma and_then_Inl [simp]: "and_then (Inl e) f = Inl e"
  by (simp add: and_then_def)

subsection \<open>No step fails on a known category\<close>

lemma extract_action_key_total:
  assumes "cat \<in> known_categories"
  shows "\<exists>a. extract_action_key s cat = Inr a"
proof -
  consider "cat = ''transportation''" | "cat = ''energy''" | "cat = ''food''" | "cat = ''waste''"
    using assms by (auto simp: known_categories_def)
  then show ?thesis
  proof cases
    case 1
    then show ?thesis
      by (simp add: extract_action_key_def action_mapping_def dict_item_def Let_def)
  next
    case 2
    then show ?thesis
      by (simp add: extract_action_key_def action_mapping_def dict_item_def Let_def)
  next
    case 3
    then show ?thesis
      by (simp add: extract_action_key_def action_mapping_def dict_item_def Let_def)
  next
    case 4
    then show ?thesis
      by (simp add: extract_action_key_def action_mapping_def dict_item_def Let_def)
  qed
qed

lemma impact_estimates_known:
  assumes "cat \<in> known_categories"
  shows "\<exists>t. dict_item impact_estimates cat = Inr t"
  using assms by (auto simp: known_categories_def impact_estimates_def dict_item_def)

lemma score_rec_ok:
  assumes "cat \<in> known_categories"
  shows "\<exists>item. score_rec cat e s = Inr item \<and> category item = title cat"
proof -
  obtain a where a: "extract_action_key s cat = Inr a"
    using extract_action_key_total [OF assms] by blast
  obtain t where t: "dict_item impact_estimates cat = Inr t"
    using impact_estimates_known [OF assms] by blast
  show ?thesis by (simp add: score_rec_def a t Let_def)
qed

lemma score_recs_ok:
  assumes "cat \<in> known_categories"
  shows "\<exists>items. score_recs cat e texts = Inr items
           \<and> (\<forall>r\<in>set items. category r = title cat)"
proof (induction texts)
  case Nil
  show ?case by simp
next
  case (Cons s texts)
  obtain item where i: "score_rec cat e s = Inr item" "category item = title cat"
    using score_rec_ok [OF assms] by blast
  obtain items where its: "score_recs cat e texts = Inr items"
      "\<forall>r\<in>set items. category r = title cat"
    using Cons.IH by blast
  show ?case by (simp add: i its)
qed

lemma category_texts_known:
  assumes "cat \<in> known_categories"
  shows "\<exists>th levels texts. dict_item thresholds cat = Inr th
           \<and> dict_item recommendation_database cat = Inr levels
           \<and> dict_item levels (emission_level e th) = Inr texts"
  using assms
  by (auto simp: known_categories_def thresholds_def recommendation_database_def dict_item_def
        emission_level_def)

lemma category_recommendations_ok:
  assumes "cat \<in> known_categories"
  shows "\<exists>items. category_recommendations cat e = Inr items
           \<and> (\<forall>r\<in>set items. category r = title cat)"
proof -
  obtain th levels texts where l: "dict_item thresholds cat = Inr th"
      "dict_item recommendation_database cat = Inr levels"
      "dict_item levels (emission_level e th) = Inr texts"
    using category_texts_known [OF assms] by blast
  show ?thesis
    unfolding category_recommendations_def using l score_recs_ok [OF assms, of e "take 2 texts"]
    by simp
qed

lemma collect_recommendations_ok:
  assumes "set (map fst fp) \<subseteq> insert ''total'' known_categories"
  shows "\<exists>items. collect_recommendations fp acc = Inr (acc @ items)
           \<and> (\<forall>r\<in>set items. category r \<in> title ` known_categories)"
  using assms
proof (induction fp arbitrary: acc)
  case Nil
  show ?case by simp
next
  case (Cons entry fp)
  obtain cat e where entry: "entry = (cat, e)" by (cases entry)
  have rest: "set (map fst fp) \<subseteq> insert ''total'' known_categories"
    using Cons.prems by simp
  show ?case
  proof (cases "cat = ''total''")
    case True
    then show ?thesis using Cons.IH [OF rest, of acc] by (simp add: entry)
  next
    case False
    then have known: "cat \<in> known_categories" using Cons.prems by (simp add: entry)
    obtain new where new: "category_recommendations cat e = Inr new"
        "\<forall>r\<in>set new. category r = title cat"
      using category_recommendations_ok [OF known] by blast
    obtain items where items:
        "collect_recommendations fp (acc @ new) = Inr ((acc @ new) @ items)"
        "\<forall>r\<in>set items. category r \<in> title ` known_categories"
      using Cons.IH [OF rest, of "acc @ new"] by blast
    have "collect_recommendations (entry # fp) acc = Inr (acc @ (new @ items))"
      using False by (simp add: entry new items)
    moreover have "\<forall>r\<in>set (new @ items). category r \<in> title ` known_categories"
      using new(2) items(2) known by auto
    ultimately show ?thesis by blast
  qed
qed

subsection \<open>The reversed stable sort\<close>

lemma set_sort_reverse: "set (sort_reverse f xs) = set xs"
  by (simp add: sort_reverse_def)

lemma sort_reverse_descending: "sorted_wrt (\<lambda>a b. f b \<le> f a) (sort_reverse f xs)"
proof -
  have "sorted (map f (sort_key f (rev xs)))" by simp
  then have "sorted_wrt (\<lambda>a b. f a \<le> f b) (sort_key f (rev xs))"
    by (simp add: sorted_wrt_map)
  then show ?thesis
    by (simp add: sort_reverse_def sorted_wrt_rev)
qed

text \<open>
  C2. For a footprint breakdown (keys among the four categories and \<open>total\<close>),
  \<open>get_personalized_recommendations\<close> returns a list, of at most 8 recommendations, none
  of them for \<open>total\<close> (every one carries the title-cased name of one of the four
  categories), in descending order of the pair (priority, absolute impact estimate):
  priority first, the absolute impact among equal priorities.
\<close>

theorem personalized_recommendations_top8:
  assumes "set (map fst user_footprint)
             \<subseteq> {''transportation'', ''energy'', ''food'', ''waste'', ''total''}"
  shows "\<exists>recs. get_personalized_recommendations user_footprint = Inr recs
           \<and> length recs \<le> 8
           \<and> (\<forall>r\<in>set recs. category r \<noteq> ''Total''
                 \<and> category r \<in> {''Transportation'', ''Energy'', ''Food'', ''Waste''})
           \<and> sorted_wrt (\<lambda>a b. priority b < priority a
                 \<or> (priority b = priority a
                     \<and> \<bar>impact_estimate b\<bar> \<le> \<bar>impact_estimate a\<bar>)) recs"
proof -
  have keys: "set (map fst user_footprint) \<subseteq> insert ''total'' known_categories"
    using assms by (auto simp: known_categories_def)
  obtain items where items: "collect_recommendations user_footprint [] = Inr items"
      "\<forall>r\<in>set items. category r \<in> title ` known_categories"
    using collect_recommendations_ok [OF keys, of "[]"] by auto
  define recs where "recs = take 8 (sort_reverse sort_key_of items)"
  have res: "get_personalized_recommendations user_footprint = Inr recs"
    by (simp add: get_personalized_recommendations_def items recs_def)
  have len: "length recs \<le> 8" by (simp add: recs_def)
  have sub: "set recs \<subseteq> set items"
    unfolding recs_def using set_take_subset [of 8 "sort_reverse sort_key_of items"]
    by (simp add: set_sort_reverse)
  have names: "title ` known_categories = {''Transportation'', ''Energy'', ''Food'', ''Waste''}"
    by (simp add: known_categories_def titles)
  have cats: "\<forall>r\<in>set recs. category r \<noteq> ''Total''
                 \<and> category r \<in> {''Transportation'', ''Energy'', ''Food'', ''Waste''}"
  proof
    fix r assume "r \<in> set recs"
    then have "category r \<in> {''Transportation'', ''Energy'', ''Food'', ''Waste''}"
      using sub items(2) names by blast
    then show "category r \<noteq> ''Total''
                 \<and> category r \<in> {''Transportation'', ''Energy'', ''Food'', ''Waste''}"
      by auto
  qed
  have "sorted_wrt (\<lambda>a b. sort_key_of b \<le> sort_key_of a) recs"
    unfolding recs_def by (rule sorted_wrt_take) (rule sort_reverse_descending)
  moreover have "(sort_key_of b \<le> sort_key_of a) = (priority b < priority a
                 \<or> (priority b = priority a
                     \<and> \<bar>impact_estimate b\<bar> \<le> \<bar>impact_estimate a\<bar>))" for a b
    by (auto simp: sort_key_of_def)
  ultimately have srt: "sorted_wrt (\<lambda>a b. priority b < priority a
                 \<or> (priority b = priority a
                     \<and> \<bar>impact_estimate b\<bar> \<le> \<bar>impact_estimate a\<bar>)) recs"
    by simp
  show ?thesis using res len cats srt by blast
qed

text \<open>
  The scenario of the specification (transportation 150, energy 50, food 50, waste 10,
  total 260): eight recommendations, the transportation ones of a "high" level.
\<close>

lemma example_recommendations:
  "get_personalized_recommendations example_footprint = Inr
     [\<lparr>category = ''Transportation'',
         recommendation =
           ''Switch to an electric or hybrid vehicle - can reduce emissions by 40-60%'',
         impact_estimate = - 2000, priority = 5, difficulty = ''High''\<rparr>,
      \<lparr>category = ''Energy'',
         recommendation = ''Excellent energy management!'',
         impact_estimate = - 1500, priority = 3, difficulty = ''Low''\<rparr>,
      \<lparr>category = ''Energy'',
         recommendation = ''Continue your energy-efficient practices'',
         impact_estimate = - 1500, priority = 3, difficulty = ''Low''\<rparr>,
      \<lparr>category = ''Transportation'',
         recommendation = ''Use public transportation for daily commutes'',
         impact_estimate = - 1200, priority = 3, difficulty = ''Low''\<rparr>,
      \<lparr>category = ''Food'',
         recommendation = ''Your food choices are climate-friendly!'',
         impact_estimate = - 500, priority = 1, difficulty = ''Low''\<rparr>,
      \<lparr>category = ''Food'',
         recommendation = ''Keep up the sustainable eating habits'',
         impact_estimate = - 500, priority = 1, difficulty = ''Low''\<rparr>,
      \<lparr>category = ''Waste'',
         recommendation = ''Excellent waste management!'',
         impact_estimate = - 200, priority = 0, difficulty = ''Low''\<rparr>,
      \<lparr>category = ''Waste'',
         recommendation = ''Your waste practices are very sustainable'',
         impact_estimate = - 200, priority = 0, difficulty = ''Low''\<rparr>]"
  by code_simp

theorem personalized_recommendations_top8_witness:
  "set (map fst example_footprint)
     \<subseteq> {''transportation'', ''energy'', ''food'', ''waste'', ''total''}
   \<and> (\<exists>recs. get_personalized_recommendations example_footprint = Inr recs
           \<and> length recs = 8
           \<and> list_all (\<lambda>r. category r \<noteq> ''Total''
                 \<and> category r \<in> {''Transportation'', ''Energy'', ''Food'', ''Waste''}) recs
           \<and> sorted_wrt (\<lambda>a b. priority b < priority a
                 \<or> (priority b = priority a
                     \<and> \<bar>impact_estimate b\<bar> \<le> \<bar>impact_estimate a\<bar>)) recs)"
proof -
  have keys: "set (map fst example_footprint)
                \<subseteq> {''transportation'', ''energy'', ''food'', ''waste'', ''total''}"
    by (simp add: example_footprint_def)
  show ?thesis
    using keys personalized_recommendations_top8 [OF keys]
    by (simp add: list_all_iff example_recommendations)
qed

subsection \<open>The action plan\<close>

lemma py_sum_int: "py_sum xs = sum_list (xs :: int list)"
proof -
  have "foldl (+) a xs = a + sum_list xs" for a :: int
    by (induction xs arbitrary: a) simp_all
  then show ?thesis by (simp add: py_sum_def)
qed

text \<open>
  C3. \<open>generate_action_plan\<close> puts at most 3 recommendations in weeks 1-2, all of them of
  difficulty Low and taken from the input, at most 3 of difficulty Medium in weeks 3-6
  and at most 2 of difficulty High in weeks 7-12; the expected reduction of a phase is
  the sum of the absolute impact estimates of the actions of that phase; and the total
  potential reduction is the sum of the three expected reductions.
\<close>

theorem action_plan_phases:
  "(let plan = generate_action_plan recommendations;
        quick = actions (weeks_1_2 plan);
        habit = actions (weeks_3_6 plan);
        major = actions (weeks_7_12 plan)
    in length quick \<le> 3
     \<and> (\<forall>r\<in>set quick. difficulty r = ''Low'' \<and> r \<in> set recommendations)
     \<and> length habit \<le> 3
     \<and> (\<forall>r\<in>set habit. difficulty r = ''Medium'' \<and> r \<in> set recommendations)
     \<and> length major \<le> 2
     \<and> (\<forall>r\<in>set major. difficulty r = ''High'' \<and> r \<in> set recommendations)
     \<and> expected_reduction (weeks_1_2 plan) = (\<Sum>r\<leftarrow>quick. \<bar>impact_estimate r\<bar>)
     \<and> expected_reduction (weeks_3_6 plan) = (\<Sum>r\<leftarrow>habit. \<bar>impact_estimate r\<bar>)
     \<and> expected_reduction (weeks_7_12 plan) = (\<Sum>r\<leftarrow>major. \<bar>impact_estimate r\<bar>)
     \<and> total_potential_reduction plan =
           expected_reduction (weeks_1_2 plan) + expected_reduction (weeks_3_6 plan)
             + expected_reduction (weeks_7_12 plan))"
proof -
  have pick: "r \<in> set (take n (filter P xs)) \<Longrightarrow> P r \<and> r \<in> set xs"
    for r n P and xs :: "rec_item list"
    using set_take_subset [of n "filter P xs"] by auto
  show ?thesis
    unfolding generate_action_plan_def Let_def reduction_of_def py_sum_int
    by (auto dest: pick)
qed

theorem action_plan_phases_witness:
  "(let plan = generate_action_plan example_recommendations_list
    in map recommendation (actions (weeks_1_2 plan)) =
         [''Excellent energy management!'', ''Continue your energy-efficient practices'',
          ''Use public transportation for daily commutes'']
     \<and> list_all (\<lambda>r. difficulty r = ''Low'') (actions (weeks_1_2 plan))
     \<and> list_all (\<lambda>r. difficulty r = ''Medium'') (actions (weeks_3_6 plan))
     \<and> list_all (\<lambda>r. difficulty r = ''High'') (actions (weeks_7_12 plan))
     \<and> expected_reduction (weeks_1_2 plan) = 4200
     \<and> expected_reduction (weeks_3_6 plan) = 200
     \<and> expected_reduction (weeks_7_12 plan) = 2000
     \<and> total_potential_reduction plan = 6400)"
  using action_plan_phases [of example_recommendations_list]
  by (simp add: example_recommendations_list_def generate_action_plan_def reduction_of_def
        py_sum_def Let_def)

subsection \<open>The keyword table\<close>

text \<open>
  C9. The keyword \<open>LED\<close> of the energy table is written in upper case while the text is
  compared in lower case: the text below contains the keyword, yet no keyword is found
  and the first action of the table, \<open>renewable_energy\<close>, is returned instead of
  \<open>led_lighting\<close>.
\<close>

theorem led_keyword_not_matched:
  "contains ''Replace incandescent bulbs with LED lighting'' ''LED''
   \<and> extract_action_key ''Replace incandescent bulbs with LED lighting'' ''energy''
       = Inr ''renewable_energy''"
  by code_simp

text \<open>No text at all reaches \<open>led_lighting\<close>: a lowered text has no upper-case letter.\<close>

lemma starts_with_set: "starts_with s k \<Longrightarrow> set k \<subseteq> set s"
  by (induction s k rule: starts_with.induct) auto

lemma contains_set: "contains s k \<Longrightarrow> set k \<subseteq> set s"
proof (induction s)
  case Nil
  then show ?case by simp
next
  case (Cons c cs)
  then show ?case using starts_with_set [of "c # cs" k] by auto
qed

lemma lower_char_not_upper: "lower_char c \<notin> set upper_letters"
proof (cases "map_of (zip upper_letters lower_letters) c")
  case None
  have len: "length upper_letters = length lower_letters"
    by (simp add: upper_letters_def lower_letters_def)
  have "c \<notin> set upper_letters"
    using None map_of_zip_is_None [OF len, of c] by blast
  then show ?thesis using None by (simp add: lower_char_def)
next
  case (Some d)
  then have "d \<in> set lower_letters"
    by (meson map_of_SomeD set_zip_rightD)
  then have "d \<notin> set upper_letters"
    by (auto simp: upper_letters_def lower_letters_def)
  then show ?thesis using Some by (simp add: lower_char_def)
qed

lemma led_never_found: "\<not> contains (lower s) ''LED''"
proof
  assume "contains (lower s) ''LED''"
  then have "CHR ''L'' \<in> set (lower s)" using contains_set by fastforce
  then obtain c where "lower_char c = CHR ''L''" by (auto simp: lower_def)
  then show False using lower_char_not_upper [of c] by (simp add: upper_letters_def)
qed

lemma led_lighting_unreachable: "extract_action_key s ''energy'' \<noteq> Inr ''led_lighting''"
  using led_never_found [of s]
  by (simp add: extract_action_key_def action_mapping_def dict_item_def Let_def)


section \<open>Trend forecaster: results\<close>

text \<open>
  C10. On the empty history \<open>predict_future_trend\<close> raises \<open>IndexError\<close>, whatever
  \<open>days_ahead\<close> and the noise: the low-data branch reads \<open>historical_data[-1]\<close>.
\<close>

theorem empty_history_raises:
  "predict_future_trend gauss [] days_ahead = Inl (IndexError ''list index out of range'')"
  by (simp add: predict_future_trend_def)

text \<open>
  C4, as it holds on the code: for a history of 1 to 6 values \<open>predict_future_trend\<close>
  returns a list, of \<open>days_ahead\<close> values (none when \<open>days_ahead\<close> is negative), each equal
  to the last value of the history.
\<close>

theorem short_history_flat_projection:
  assumes "historical_data \<noteq> []" and "length historical_data < 7"
  shows "\<exists>vs. predict_future_trend gauss historical_data days_ahead = Inr vs
           \<and> length vs = nat days_ahead
           \<and> (\<forall>v\<in>set vs. v = last historical_data)"
  using assms by (simp add: predict_future_trend_def)

theorem short_history_flat_projection_witness:
  "[3, 4, 5 :: real] \<noteq> [] \<and> length [3, 4, 5 :: real] < 7
   \<and> predict_future_trend (\<lambda>k. 1) [3, 4, 5] 2 = Inr [5, 5]"
proof -
  have a: "[3, 4, 5 :: real] \<noteq> []" and b: "length [3, 4, 5 :: real] < 7" by simp_all
  show ?thesis
    using short_history_flat_projection [OF a b, of "\<lambda>k. 1" 2]
    by (simp add: predict_future_trend_def numeral_2_eq_2)
qed

text \<open>
  The claim as stated fails: the empty history has fewer than 7 values and raises, and a
  negative \<open>days_ahead\<close> gives the empty list.
\<close>

theorem short_history_counterexample:
  "raised_class (predict_future_trend (\<lambda>k. 0) [] 30) = Some ''IndexError''
   \<and> predict_future_trend (\<lambda>k. 0) [5] (- 3) = Inr []"
  by (simp add: predict_future_trend_def IndexError_def)





section \<open>Synthetic data generator: results\<close>

lemma np_choice_in_options:
  assumes "options \<noteq> []"
  shows "set (np_choice g col options n) \<subseteq> set options"
proof -
  have "options ! (k mod length options) \<in> set options" for k
    using assms by simp
  then show ?thesis by (auto simp: np_choice_def)
qed

lemmas np_arrays =
  np_randint_def np_normal_def np_exponential_def np_poisson_def np_uniform_def np_choice_def

text \<open>
  C8. For \<open>n \<ge> 1\<close>, \<open>generate_synthetic_data\<close> returns a frame in which every one of the
  19 columns has exactly \<open>n\<close> values, every location type is urban, suburban or rural,
  every vehicle type is gasoline, diesel, electric or hybrid, and every carbon footprint
  is at least 1000, whatever the generator draws.
\<close>

theorem synthetic_data_shape:
  assumes "1 \<le> n_samples"
  shows "\<exists>df. generate_synthetic_data g n_samples = Inr df
           \<and> list_all (\<lambda>l. int l = n_samples) (column_lengths df)
           \<and> set (location_type df) \<subseteq> {''urban'', ''suburban'', ''rural''}
           \<and> set (vehicle_type df) \<subseteq> {''gasoline'', ''diesel'', ''electric'', ''hybrid''}
           \<and> (\<forall>v\<in>set (carbon_footprint df). 1000 \<le> v)"
proof -
  define n where "n = nat n_samples"
  have n: "int n = n_samples" using assms by (simp add: n_def)
  have loc: "set (np_choice g ''location_type'' [''urban'', ''suburban'', ''rural''] n)
               \<subseteq> {''urban'', ''suburban'', ''rural''}"
    using np_choice_in_options [of "[''urban'', ''suburban'', ''rural'']" g "''location_type''" n]
    by simp
  have veh: "set (np_choice g ''vehicle_type''
                    [''gasoline'', ''diesel'', ''electric'', ''hybrid''] n)
               \<subseteq> {''gasoline'', ''diesel'', ''electric'', ''hybrid''}"
    using np_choice_in_options
      [of "[''gasoline'', ''diesel'', ''electric'', ''hybrid'']" g "''vehicle_type''" n]
    by simp
  have nonneg: "\<not> n_samples < 0" using assms by simp
  show ?thesis
    unfolding generate_synthetic_data_def Let_def n_def [symmetric]
    using loc veh n nonneg by (simp add: column_lengths_def np_arrays)
qed

theorem synthetic_data_shape_witness:
  "(1::int) \<le> 2
   \<and> (case generate_synthetic_data zero_generator 2 of
         Inl e \<Rightarrow> False
       | Inr df \<Rightarrow>
           column_lengths df = replicate 19 2
           \<and> location_type df = [''urban'', ''suburban'']
           \<and> vehicle_type df = [''gasoline'', ''diesel'']
           \<and> carbon_footprint df = [67803 / 5, 29834 / 5])"
proof -
  have a: "(1::int) \<le> 2" by simp
  have r: "(case generate_synthetic_data zero_generator 2 of
         Inl e \<Rightarrow> False
       | Inr df \<Rightarrow>
           column_lengths df = replicate 19 2
           \<and> location_type df = [''urban'', ''suburban'']
           \<and> vehicle_type df = [''gasoline'', ''diesel'']
           \<and> carbon_footprint df = [67803 / 5, 29834 / 5])"
    by code_simp
  show ?thesis using synthetic_data_shape [OF a, of zero_generator] r by simp
qed


section \<open>Footprint predictor: results\<close>

lemmas training_defs =
  train_models_def preprocess_data_training_def categorical_cols_def frame_drop_def
  set_column_def dict_item_def models_to_train_def sklearn_double_def zero_rows_def
  new_predictor_def example_dataset_def empty_dataset_def

text \<open>
  Training on the two-row dataset succeeds and stores the four models, the two encoders,
  the scaler and the three feature names.
\<close>

lemma example_training:
  "\<exists>report p. train_models sklearn_double new_predictor example_dataset = Inr (report, p)
     \<and> map fst report = models_to_train
     \<and> map fst (models p) = models_to_train
     \<and> feature_names p = [''location_type'', ''car_miles_per_week'', ''vehicle_type'']
     \<and> map fst (encoders p) = [''location_type'', ''vehicle_type'']
     \<and> map fst (scalers p) = [''features'']"
  by (simp add: training_defs)

lemma trained_models: "map fst (models trained_predictor) = models_to_train"
  using example_training by (auto simp: trained_predictor_def)

text \<open>
  C6, as it holds on the code: \<open>predict_footprint\<close> raises the built-in \<open>ValueError\<close>
  with the message "Model <name> not trained yet" on a predictor that was never
  trained, and raises the same error, class and message, on any predictor whose models
  do not include the name asked for. The two conditions are one check.
\<close>

theorem predict_without_model_raises:
  "predict_footprint new_predictor user_data model_name
     = Inl (ValueError (not_trained_message model_name))
   \<and> (model_name \<notin> set (map fst (models p)) \<longrightarrow>
        predict_footprint p user_data model_name
          = Inl (ValueError (not_trained_message model_name)))"
proof -
  have "map_of (models p) model_name = None" if "model_name \<notin> set (map fst (models p))"
    using that by (simp add: map_of_eq_None_iff)
  then show ?thesis
    by (simp add: predict_footprint_def new_predictor_def)
qed

theorem predict_without_model_raises_witness:
  "''svm'' \<notin> set (map fst (models trained_predictor))
   \<and> predict_footprint trained_predictor example_user ''svm''
       = Inl (Raised ''ValueError'' ''Model svm not trained yet'')
   \<and> predict_footprint new_predictor example_user ''xgboost''
       = Inl (Raised ''ValueError'' ''Model xgboost not trained yet'')
   \<and> predict_footprint trained_predictor example_user ''xgboost'' = Inr 0"
proof -
  have a: "''svm'' \<notin> set (map fst (models trained_predictor))"
    by (simp add: trained_models models_to_train_def)
  have ok: "predict_footprint trained_predictor example_user ''xgboost'' = Inr 0"
    by (simp add: trained_predictor_def training_defs predict_footprint_def
          preprocess_data_inference_def example_user_def)
  show ?thesis
    using a ok predict_without_model_raises [of example_user "''svm''" trained_predictor]
      predict_without_model_raises [of example_user "''xgboost''" trained_predictor]
    by (simp add: ValueError_def not_trained_message_def)
qed

text \<open>
  The claim as stated fails: before training and with an unknown variant the class of
  the error is \<open>ValueError\<close> both times, and for the same name the two errors are equal.
\<close>

theorem predict_errors_counterexample:
  "raised_class (predict_footprint new_predictor example_user ''xgboost'') = Some ''ValueError''
   \<and> raised_class (predict_footprint trained_predictor example_user ''svm'')
       = Some ''ValueError''
   \<and> predict_footprint new_predictor example_user ''svm''
       = predict_footprint trained_predictor example_user ''svm''"
  by (simp add: trained_predictor_def training_defs predict_footprint_def ValueError_def)

subsection \<open>Training on a dataset without rows\<close>

lemma zero_rows_lookup: "zero_rows df \<Longrightarrow> map_of df col = Some vals \<Longrightarrow> vals = []"
  by (induction df) (auto simp: zero_rows_def split: if_splits)

lemma zero_rows_dict_set: "zero_rows df \<Longrightarrow> zero_rows (dict_set df col [])"
  by (induction df) (auto simp: zero_rows_def)

lemma encode_fitting_zero_rows:
  assumes "label_fit_transform lib [] = Inr (encoder, [])" and "zero_rows df"
  shows "\<exists>p1 df1. encode_fitting lib cols (p, df) = Inr (p1, df1) \<and> zero_rows df1"
  using assms(2)
proof (induction cols arbitrary: p df)
  case Nil
  then show ?case by simp
next
  case (Cons col cols)
  show ?case
  proof (cases "map_of df col")
    case None
    then show ?thesis using Cons.IH [OF Cons.prems, of p] by simp
  next
    case (Some vals)
    then have empty: "vals = []" using zero_rows_lookup [OF Cons.prems] by simp
    have z: "zero_rows (set_column df col [])"
      unfolding set_column_def using Cons.prems by (rule zero_rows_dict_set)
    show ?thesis
      using Some empty assms(1)
        Cons.IH [OF z, of "p \<lparr> encoders := dict_set (encoders p) col encoder \<rparr>"]
      by simp
  qed
qed

lemma frame_select_zero_rows:
  assumes "zero_rows df" and "set names \<subseteq> set (map fst df)"
  shows "\<exists>features. frame_select df names = Inr features \<and> zero_rows features"
  using assms(2)
proof (induction names)
  case Nil
  show ?case by (simp add: zero_rows_def)
next
  case (Cons name names)
  then have "name \<in> set (map fst df)" by simp
  then obtain vals where v: "map_of df name = Some vals"
    by (metis map_of_eq_None_iff not_None_eq set_map)
  then have empty: "vals = []" using zero_rows_lookup [OF assms(1)] by simp
  obtain others where o: "frame_select df names = Inr others" "zero_rows others"
    using Cons by auto
  show ?case using v empty o by (simp add: dict_item_def zero_rows_def)
qed

text \<open>
  C7, as it holds on the code: \<open>train_models\<close> has no check of its own for a dataset
  without rows. With libraries whose label encoder accepts an empty column and whose
  scaler refuses to be fitted on a frame without rows, raising \<open>e\<close> (scikit-learn raises
  \<open>ValueError\<close>), \<open>train_models\<close> on a dataset without rows fails with that same \<open>e\<close>,
  passed on to the caller unchanged, whatever the predictor held before.
\<close>

theorem train_models_zero_rows:
  assumes "zero_rows df"
    and "label_fit_transform lib [] = Inr (encoder, [])"
    and "\<And>X. zero_rows X \<Longrightarrow> scaler_fit_transform lib X = Inl e"
  shows "train_models lib p df = Inl e"
proof -
  obtain p1 df1 where enc: "encode_fitting lib categorical_cols (p, df) = Inr (p1, df1)"
      and z1: "zero_rows df1"
    using encode_fitting_zero_rows [OF assms(2) assms(1)] by blast
  define feature_cols where
    "feature_cols = filter (\<lambda>col. col \<noteq> ''carbon_footprint'') (map fst df1)"
  have "set feature_cols \<subseteq> set (map fst df1)" by (auto simp: feature_cols_def)
  then obtain features where sel: "frame_select df1 feature_cols = Inr features"
      and zf: "zero_rows features"
    using frame_select_zero_rows [OF z1] by blast
  have "preprocess_data_training lib p df = Inl e"
    unfolding preprocess_data_training_def
    using enc sel assms(3) [OF zf] by (simp add: Let_def feature_cols_def)
  then show ?thesis by (simp add: train_models_def)
qed

theorem train_models_zero_rows_witness:
  "zero_rows empty_dataset
   \<and> train_models sklearn_double new_predictor empty_dataset
       = Inl (Raised ''ValueError'' zero_sample_message)"
proof -
  have a: "zero_rows empty_dataset" by (simp add: zero_rows_def empty_dataset_def)
  have b: "label_fit_transform sklearn_double []
             = Inr (LabelEncoder (\<lambda>c. Inr (map (\<lambda>v. Num 0) c)), [])"
    by (simp add: sklearn_double_def)
  have c: "scaler_fit_transform sklearn_double X = Inl (ValueError zero_sample_message)"
    if "zero_rows X" for X
    using that by (simp add: sklearn_double_def)
  show ?thesis
    using a train_models_zero_rows [OF a b c, of new_predictor] by (simp add: ValueError_def)
qed

text \<open>
  The claim as stated fails: on the dataset without rows the error that reaches the
  caller is the \<open>ValueError\<close> of the scaler.
\<close>

theorem train_models_empty_counterexample:
  "raised_class (train_models sklearn_double new_predictor empty_dataset) = Some ''ValueError''"
  by (simp add: training_defs ValueError_def)

end
